theory Spec2Isabelle
  imports Complex_Main
begin

section \<open>Values, features and the geospatial service\<close>

text \<open>
  The extractor is a client of Google Earth Engine: \<^verbatim>\<open>datasets.py\<close> builds requests out
  of the service's primitives (\<^verbatim>\<open>filterBounds\<close>, \<^verbatim>\<open>intersection\<close>, \<^verbatim>\<open>area\<close>, \<^verbatim>\<open>buffer\<close>,
  \<^verbatim>\<open>reduceRegion\<close>, \<^verbatim>\<open>ee.Algorithms.If\<close>, ...). The embedding evaluates a request to the
  value the service answers with. Numbers are reals (\<^verbatim>\<open>datasets.py\<close> only compares them),
  a property value is a number, a string, a date (its time stamp) or null, and a
  collection is the list of its elements in iteration order.
\<close>

datatype ee_value = Null | Number real | String string | Date int

text \<open>An \<^verbatim>\<open>ee.Number\<close> that may be null: \<open>None\<close> is null.\<close>

type_synonym ee_number = "real option"

fun ee_number_value :: "ee_number \<Rightarrow> ee_value" where
  "ee_number_value None = Null"
| "ee_number_value (Some x) = Number x"

text \<open>An \<^verbatim>\<open>ee.Feature\<close>: a geometry and a dictionary of properties.\<close>

record 'g feature =
  geometry :: 'g
  properties :: "string \<rightharpoonup> ee_value"

text \<open>\<^verbatim>\<open>feature.set(key, value)\<close> returns a copy of the feature in which the property is
  set; a property already stored under the key is replaced.\<close>

definition feature_set :: "'g feature \<Rightarrow> string \<Rightarrow> ee_value \<Rightarrow> 'g feature" where
  "feature_set f key v = f\<lparr>properties := (properties f)(key \<mapsto> v)\<rparr>"

text \<open>The one fault of the service that the embedding represents: a call whose object
  argument is null is rejected (\<^verbatim>\<open>Parameter 'object' is required\<close>), and the request that
  contains the call fails with \<^verbatim>\<open>ee.EEException\<close>.\<close>

datatype ee_error = NullObject

text \<open>\<^verbatim>\<open>collection.first()\<close>: the first element, null when the collection is empty.\<close>

fun ee_first :: "'a list \<Rightarrow> 'a option" where
  "ee_first [] = None"
| "ee_first (x # xs) = Some x"

text \<open>\<^verbatim>\<open>feature.get(key)\<close>: the property, null when the feature has no such property; a
  fault when the feature itself is null.\<close>

fun element_get :: "'g feature option \<Rightarrow> string \<Rightarrow> ee_error + ee_value" where
  "element_get None key = Inl NullObject"
| "element_get (Some f) key = Inr (case properties f key of None \<Rightarrow> Null | Some v \<Rightarrow> v)"

text \<open>
  The geometric primitives of the service are parameters of the model: the code never
  looks inside a geometry. \<open>'g\<close> is the type of geometries and \<open>'p\<close> the type of raster
  cells. \<open>region_pixels g s\<close> are the cells of region \<open>g\<close> at scale \<open>s\<close>, and
  \<open>kernel_pixels r p\<close> are the cells that a euclidean kernel of radius \<open>r\<close> reaches from
  cell \<open>p\<close>, each with its distance from \<open>p\<close>.
\<close>

record ('g, 'p) geo_service =
  point :: "real \<Rightarrow> real \<Rightarrow> 'g"
  buffer :: "'g \<Rightarrow> real \<Rightarrow> 'g"
  intersects :: "'g \<Rightarrow> 'g \<Rightarrow> bool"
  intersection :: "'g \<Rightarrow> 'g \<Rightarrow> 'g"
  area :: "'g \<Rightarrow> real"
  geo_distance :: "'g \<Rightarrow> 'g \<Rightarrow> real"
  region_pixels :: "'g \<Rightarrow> real \<Rightarrow> 'p list"
  kernel_pixels :: "real \<Rightarrow> 'p \<Rightarrow> ('p \<times> real) list"

text \<open>\<^verbatim>\<open>collection.filterBounds(geometry)\<close> keeps the features whose geometry intersects
  the given one.\<close>

definition filterBounds ::
  "('g, 'p) geo_service \<Rightarrow> 'g feature list \<Rightarrow> 'g \<Rightarrow> 'g feature list" where
  "filterBounds svc fs g = filter (\<lambda>f. intersects svc (geometry f) g) fs"

text \<open>\<^verbatim>\<open>feature.intersection(geometry)\<close>: the intersection of the two geometries, with the
  properties of the feature.\<close>

definition feature_intersection ::
  "('g, 'p) geo_service \<Rightarrow> 'g feature \<Rightarrow> 'g \<Rightarrow> 'g feature" where
  "feature_intersection svc f g = f\<lparr>geometry := intersection svc (geometry f) g\<rparr>"

text \<open>\<^verbatim>\<open>collection.aggregate_max(key)\<close>: the largest number stored under the key, null when
  no feature stores a number there.\<close>

fun number_of :: "ee_value \<Rightarrow> real option" where
  "number_of (Number x) = Some x"
| "number_of v = None"

definition property_value :: "'g feature \<Rightarrow> string \<Rightarrow> ee_value" where
  "property_value f key = (case properties f key of None \<Rightarrow> Null | Some v \<Rightarrow> v)"

definition aggregate_max :: "'g feature list \<Rightarrow> string \<Rightarrow> ee_value" where
  "aggregate_max fs key =
     (case List.map_filter (\<lambda>f. number_of (property_value f key)) fs of
        [] \<Rightarrow> Null
      | x # xs \<Rightarrow> Number (fold max xs x))"

text \<open>\<^verbatim>\<open>ee.Filter.gte(key, value)\<close> on a feature: the number stored under the key is at
  least the given number.\<close>

fun filter_gte :: "ee_value \<Rightarrow> ee_value \<Rightarrow> bool" where
  "filter_gte (Number a) (Number b) = (b \<le> a)"
| "filter_gte a b = False"

section \<open>Raster layers\<close>

text \<open>
  Modelled from the spec: the raster primitives of the service (band selection and
  renaming, mosaic, distance transform, region reduction), which are not code of this
  repository. A band is a partial map from cells to values, undefined where the layer
  has no valid data; an image maps a band name to its band (a band the image does not
  have is everywhere undefined).
\<close>

type_synonym 'p raster = "'p \<rightharpoonup> real"

type_synonym 'p image = "string \<Rightarrow> 'p raster"

text \<open>Modelled from the spec: \<^verbatim>\<open>image.select([band], [name])\<close> exposes exactly the requested
  band, renamed.\<close>

definition image_select :: "'p image \<Rightarrow> string \<Rightarrow> string \<Rightarrow> 'p image" where
  "image_select img band_id new_name = (\<lambda>b. if b = new_name then img band_id else Map.empty)"

text \<open>\<^verbatim>\<open>collection.select([band], [name])\<close> selects in every image of the collection.\<close>

definition collection_select :: "'p image list \<Rightarrow> string \<Rightarrow> string \<Rightarrow> 'p image list" where
  "collection_select imgs band_id new_name = map (\<lambda>i. image_select i band_id new_name) imgs"

text \<open>Modelled from the spec: \<^verbatim>\<open>collection.mosaic()\<close> composes the images in the
  collection's order; at a cell where several images have data the last one wins.\<close>

definition mosaic :: "'p image list \<Rightarrow> 'p image" where
  "mosaic imgs = (\<lambda>b. foldl (\<lambda>acc i. acc ++ i b) Map.empty imgs)"

text \<open>Modelled from the spec: \<^verbatim>\<open>image.distance(ee.Kernel.euclidean(radius, 'meters'), False)\<close>
  is the distance-to-coverage surface: at every cell, the distance to the nearest cell
  with valid data that the kernel reaches, and no data when it reaches none.\<close>

fun nearest_distance :: "real list \<Rightarrow> real option" where
  "nearest_distance [] = None"
| "nearest_distance (d # ds) = Some (fold min ds d)"

definition image_distance :: "('g, 'p) geo_service \<Rightarrow> 'p image \<Rightarrow> real \<Rightarrow> 'p image" where
  "image_distance svc img radius =
     (\<lambda>b p. nearest_distance (map snd (filter (\<lambda>(q, d). img b q \<noteq> None) (kernel_pixels svc radius p))))"

datatype reducer = Mean | Mode | Median

definition median_of :: "real list \<Rightarrow> real" where
  "median_of vs =
     (let s = sort vs; n = length s
      in if n mod 2 = 1 then s ! (n div 2) else (s ! (n div 2 - 1) + s ! (n div 2)) / 2)"

text \<open>Modelled from the spec: the statistic of a reducer over the valid values of a
  region; null when the region has no valid value.\<close>

fun reduce_values :: "reducer \<Rightarrow> real list \<Rightarrow> ee_number" where
  "reduce_values r [] = None"
| "reduce_values Mean (v # vs) = Some (sum_list (v # vs) / real (length (v # vs)))"
| "reduce_values Mode (v # vs) =
     Some (fold (\<lambda>x best. if count_list (v # vs) best < count_list (v # vs) x then x else best)
             vs v)"
| "reduce_values Median (v # vs) = Some (median_of (v # vs))"

text \<open>Modelled from the spec: \<^verbatim>\<open>image.reduceRegion(reducer, geometry, scale, maxPixels)\<close>
  answers with a dictionary that holds, for every band, the statistic of the band over
  the cells of the region. The pixel budget \<^verbatim>\<open>maxPixels\<close> is not represented: a sample
  area is taken to stay within it.\<close>

definition reduceRegion ::
  "('g, 'p) geo_service \<Rightarrow> 'p image \<Rightarrow> reducer \<Rightarrow> 'g \<Rightarrow> real \<Rightarrow> string \<Rightarrow> ee_number" where
  "reduceRegion svc img r g scale =
     (\<lambda>b. reduce_values r (List.map_filter (img b) (region_pixels svc g scale)))"

section \<open>RasterDataset\<close>

record 'p RasterDataset =
  name :: string
  categorical :: bool
  map_params :: "(string \<times> string) list"
  data :: "'p image"
  band :: string

datatype 'p snippet = Image "'p image" | ImageCollection "'p image list"

text \<open>\<^verbatim>\<open>name or band\<close>: Python takes \<open>band\<close> when \<open>name\<close> is \<open>None\<close> or empty.\<close>

definition name_or :: "string option \<Rightarrow> string \<Rightarrow> string" where
  "name_or nm dflt = (case nm of None \<Rightarrow> dflt | Some n \<Rightarrow> if n = [] then dflt else n)"

definition RasterDataset_init ::
  "'p snippet \<Rightarrow> string \<Rightarrow> string option \<Rightarrow> bool \<Rightarrow> (string \<times> string) list
     \<Rightarrow> 'p RasterDataset" where
  "RasterDataset_init snip band_id nm cat params =
     (let self_name = name_or nm band_id
      in \<lparr>name = self_name,
          categorical = cat,
          map_params = params,
          data = (case snip of
                    ImageCollection c \<Rightarrow> mosaic (collection_select c band_id self_name)
                  | Image i \<Rightarrow> image_select i band_id self_name),
          band = self_name\<rparr>)"

definition RasterDataset_distance ::
  "('g, 'p) geo_service \<Rightarrow> 'p RasterDataset \<Rightarrow> 'g \<Rightarrow> ee_number" where
  "RasterDataset_distance svc self g =
     (let distance_image = image_select (image_distance svc (data self) 1000) (band self) ''distance''
      in reduceRegion svc distance_image Mean g 100 ''distance'')"

definition RasterDataset_mode ::
  "('g, 'p) geo_service \<Rightarrow> 'p RasterDataset \<Rightarrow> 'g \<Rightarrow> ee_number" where
  "RasterDataset_mode svc self g = reduceRegion svc (data self) Mode g 100 (band self)"

definition RasterDataset_median ::
  "('g, 'p) geo_service \<Rightarrow> 'p RasterDataset \<Rightarrow> 'g \<Rightarrow> ee_number" where
  "RasterDataset_median svc self g = reduceRegion svc (data self) Median g 100 (band self)"

text \<open>
  The geometry that \<^verbatim>\<open>get_sample_area_data\<close> reduces over (the nested \<^verbatim>\<open>ee.Algorithms.If\<close>
  of lines 48 to 59). \<^verbatim>\<open>ee.Algorithms.If\<close> takes null and the number 0 for false and any
  other number for true, and the service evaluates only the branch it selects.
\<close>

definition reduction_geometry ::
  "('g, 'p) geo_service \<Rightarrow> 'g feature \<Rightarrow> ee_number \<Rightarrow> 'g" where
  "reduction_geometry svc sample_area distance =
     (case distance of
        None \<Rightarrow> geometry sample_area
      | Some d \<Rightarrow>
          if d \<noteq> 0
          then (if d = 0 then geometry sample_area
                else buffer svc (geometry sample_area) d)
          else geometry sample_area)"

definition RasterDataset_get_sample_area_data ::
  "('g, 'p) geo_service \<Rightarrow> 'p RasterDataset \<Rightarrow> 'g feature \<Rightarrow> 'g feature" where
  "RasterDataset_get_sample_area_data svc self sample_area =
     (let distance = RasterDataset_distance svc self (geometry sample_area);
          g = reduction_geometry svc sample_area distance;
          result = (if categorical self then RasterDataset_mode svc self g
                    else RasterDataset_median svc self g)
      in feature_set sample_area (band self) (ee_number_value result))"

section \<open>VectorDataset\<close>

record 'g VectorDataset =
  data :: "'g feature list"
  property :: string
  name :: string
  map_params :: "(string \<times> string) list"

definition VectorDataset_init ::
  "'g feature list \<Rightarrow> string \<Rightarrow> string option \<Rightarrow> (string \<times> string) list \<Rightarrow> 'g VectorDataset" where
  "VectorDataset_init snip prop nm params =
     \<lparr>data = snip, property = prop, name = name_or nm prop, map_params = params\<rparr>"

text \<open>
  \<^verbatim>\<open>ee.Join.saveBest('closestFeature', 'distance').apply(primary, secondary, filter)\<close> with
  the filter \<^verbatim>\<open>withinDistance(10000)\<close>: every primary feature that has a match within the
  distance is returned with its nearest match saved under \<^verbatim>\<open>closestFeature\<close>, and the
  match carries its distance under the measure key \<^verbatim>\<open>distance\<close>; a primary feature with no
  match is left out. A joined feature is the pair of the primary feature and the saved
  match.
\<close>

definition best_match :: "('g, 'p) geo_service \<Rightarrow> 'g \<Rightarrow> 'g feature \<Rightarrow> 'g feature list \<Rightarrow> 'g feature" where
  "best_match svc g c cs =
     fold (\<lambda>s best. if geo_distance svc g (geometry s) < geo_distance svc g (geometry best)
                      then s else best) cs c"

definition save_measure ::
  "('g, 'p) geo_service \<Rightarrow> string \<Rightarrow> 'g \<Rightarrow> 'g feature \<Rightarrow> 'g feature" where
  "save_measure svc measureKey g best =
     feature_set best measureKey (Number (geo_distance svc g (geometry best)))"

definition saveBest_apply ::
  "('g, 'p) geo_service \<Rightarrow> string \<Rightarrow> 'g feature list \<Rightarrow> 'g feature list \<Rightarrow> real
     \<Rightarrow> ('g feature \<times> 'g feature) list" where
  "saveBest_apply svc measureKey primary secondary radius =
     List.map_filter
       (\<lambda>p. case filter (\<lambda>s. geo_distance svc (geometry p) (geometry s) \<le> radius) secondary of
               [] \<Rightarrow> None
             | c # cs \<Rightarrow>
                 Some (p, save_measure svc measureKey (geometry p)
                            (best_match svc (geometry p) c cs)))
       primary"

text \<open>\<^verbatim>\<open>get_nearest_feature\<close>: \<^verbatim>\<open>result\<close> is the first joined feature, null when the join
  is empty, and \<^verbatim>\<open>result.get('closestFeature')\<close> is a fault on null.\<close>

definition VectorDataset_get_nearest_feature ::
  "('g, 'p) geo_service \<Rightarrow> 'g VectorDataset \<Rightarrow> 'g feature \<Rightarrow> ee_error + 'g feature" where
  "VectorDataset_get_nearest_feature svc self sample_area =
     (let result = ee_first (saveBest_apply svc ''distance'' [sample_area] (data self) 10000)
      in case result of
           None \<Rightarrow> Inl NullObject
         | Some (p, closestFeature) \<Rightarrow> Inr closestFeature)"

definition VectorDataset_get_predominant_feature ::
  "('g, 'p) geo_service \<Rightarrow> 'g feature list \<Rightarrow> 'g feature option" where
  "VectorDataset_get_predominant_feature svc overlaps =
     (let overlaps' = map (\<lambda>feature. feature_set feature ''area''
                                        (Number (area svc (geometry feature)))) overlaps;
          max_area = aggregate_max overlaps' ''area''
      in ee_first (filter (\<lambda>f. filter_gte (property_value f ''area'') max_area) overlaps'))"

definition VectorDataset_get_sample_area_data ::
  "('g, 'p) geo_service \<Rightarrow> 'g VectorDataset \<Rightarrow> 'g feature \<Rightarrow> ee_error + 'g feature" where
  "VectorDataset_get_sample_area_data svc self sample_area =
     (let overlaps = map (\<lambda>feature. feature_intersection svc feature (geometry sample_area))
                         (filterBounds svc (data self) (geometry sample_area))
      in if length overlaps = 1 then
           (case element_get (ee_first overlaps) (property self) of
              Inl e \<Rightarrow> Inl e
            | Inr v \<Rightarrow> Inr (feature_set sample_area (name self) v))
         else if length overlaps = 0 then
           (case VectorDataset_get_nearest_feature svc self sample_area of
              Inl e \<Rightarrow> Inl e
            | Inr nearest \<Rightarrow>
                (case element_get (Some nearest) (property self) of
                   Inl e \<Rightarrow> Inl e
                 | Inr v \<Rightarrow> Inr (feature_set sample_area (name self) v)))
         else
           (case element_get (VectorDataset_get_predominant_feature svc overlaps) (property self) of
              Inl e \<Rightarrow> Inl e
            | Inr v \<Rightarrow> Inr (feature_set sample_area (name self) v)))"

section \<open>The sample areas (extractor.py)\<close>

text \<open>
  The two library functions of \<^verbatim>\<open>main\<close> whose results depend on more than the code shows
  are parameters: \<open>to_datetime\<close> is \<^verbatim>\<open>pd.to_datetime\<close> on one entry, the time stamp of the
  date or \<open>None\<close> when the entry is no date, and \<open>float64\<close> rounds a real to the nearest
  double, as every arithmetic operation on the column \<^verbatim>\<open>float64\<close> does.
\<close>

record py_env =
  to_datetime :: "string \<Rightarrow> int option"
  float64 :: "real \<Rightarrow> real"

text \<open>A row of the samples; \<open>'d\<close> is the type of the date, a string as read from the file
  and a time stamp after \<^verbatim>\<open>pd.to_datetime\<close>.\<close>

record 'd sample =
  sample_id :: string
  longitude :: real
  latitude :: real
  sample_date :: 'd
  spatial_uncertainty :: real

datatype py_error = TypeError | ValueError


text \<open>\<^verbatim>\<open>define_feature_for_sample_areas\<close>, on the samples as \<^verbatim>\<open>main\<close> passes them: the dates
  are time stamps.\<close>

definition define_feature_for_sample_areas ::
  "('g, 'p) geo_service \<Rightarrow> int sample list \<Rightarrow> real \<Rightarrow> 'g feature list" where
  "define_feature_for_sample_areas svc samples br =
     map (\<lambda>s.
            feature_set
              (feature_set
                (feature_set
                  (feature_set
                    (feature_set
                      \<lparr>geometry = buffer svc (point svc (longitude s) (latitude s)) br,
                       properties = Map.empty\<rparr>
                      ''name'' (String (sample_id s)))
                    ''sample_date'' (Date (sample_date s)))
                  ''longitude'' (Number (longitude s)))
                ''latitude'' (Number (latitude s)))
              ''spatial_uncertainty'' (Number (spatial_uncertainty s)))
         samples"

text \<open>
  \<^verbatim>\<open>samples['spatial_uncertainty'].median()\<close>: the middle value of the sorted column, and
  for a column of even length the mean of the two middle values, a sum and a division in
  doubles. (The median of the empty column is not a number; \<^verbatim>\<open>main\<close> does not get to use
  it.)
\<close>

definition series_median :: "py_env \<Rightarrow> real list \<Rightarrow> real" where
  "series_median env xs =
     (let s = sort xs; n = length s
      in if n mod 2 = 1 then s ! (n div 2)
         else float64 env (float64 env (s ! (n div 2 - 1) + s ! (n div 2)) / 2))"

text \<open>\<^verbatim>\<open>samples['sample_date'] = pd.to_datetime(samples['sample_date'])\<close>: every date becomes a
  time stamp; one entry that is no date makes the call raise \<^verbatim>\<open>ValueError\<close>.\<close>

definition sample_to_datetime :: "py_env \<Rightarrow> string sample \<Rightarrow> int sample option" where
  "sample_to_datetime env s =
     map_option
       (\<lambda>d. \<lparr>sample_id = sample_id s, longitude = longitude s, latitude = latitude s,
              sample_date = d, spatial_uncertainty = spatial_uncertainty s\<rparr>)
       (to_datetime env (sample_date s))"

text \<open>
  \<^verbatim>\<open>main\<close> from line 450, on the rows that \<^verbatim>\<open>get_kroeker_md_input_subset\<close> has read: the
  median, the conversion of the dates, \<^verbatim>\<open>min(samples['sample_date'])\<close>, which raises
  \<^verbatim>\<open>ValueError\<close> when there is no sample, and the sample areas of the last statement. The
  bounds in time and space of lines 456 to 463 and the printing are not part of the result.
\<close>

definition main_from_samples ::
  "py_env \<Rightarrow> ('g, 'p) geo_service \<Rightarrow> string sample list \<Rightarrow> py_error + 'g feature list" where
  "main_from_samples env svc samples =
     (let buffer_radius = series_median env (map spatial_uncertainty samples)
      in case those (map (sample_to_datetime env) samples) of
           None \<Rightarrow> Inl ValueError
         | Some dated \<Rightarrow>
             if dated = [] then Inl ValueError
             else Inr (define_feature_for_sample_areas svc dated buffer_radius))"


section \<open>A service on a line, for the examples\<close>

text \<open>
  Cells are the integers, 100 metres apart on a line; a geometry is a closed interval of
  cells, and its area is its length in metres.
\<close>

definition line_service :: "(int \<times> int, int) geo_service" where
  "line_service =
     \<lparr>point = (\<lambda>x y. (\<lfloor>x\<rfloor>, \<lfloor>x\<rfloor>)),
      buffer = (\<lambda>(a, b) d. (a - \<lceil>d / 100\<rceil>, b + \<lceil>d / 100\<rceil>)),
      intersects = (\<lambda>(a, b) (c, d). a \<le> d \<and> c \<le> b),
      intersection = (\<lambda>(a, b) (c, d). (max a c, min b d)),
      area = (\<lambda>(a, b). if a \<le> b then 100 * real_of_int (b - a) else 0),
      geo_distance = (\<lambda>(a, b) (c, d).
         if b < c then 100 * real_of_int (c - b)
         else if d < a then 100 * real_of_int (a - d) else 0),
      region_pixels = (\<lambda>(a, b) s. [a..b]),
      kernel_pixels = (\<lambda>r p. map (\<lambda>q. (q, 100 * real_of_int \<bar>q - p\<bar>))
                                 [p - \<lfloor>r / 100\<rfloor>..p + \<lfloor>r / 100\<rfloor>])\<rparr>"

text \<open>A feature of a vector layer on the line: an interval with a label.\<close>

definition region :: "int \<Rightarrow> int \<Rightarrow> string \<Rightarrow> (int \<times> int) feature" where
  "region a b label = \<lparr>geometry = (a, b), properties = [''label'' \<mapsto> String label]\<rparr>"

text \<open>A feature of a layer of parcels, which records its own area under \<^verbatim>\<open>area\<close>.\<close>

definition parcel :: "int \<Rightarrow> int \<Rightarrow> real \<Rightarrow> (int \<times> int) feature" where
  "parcel a b x = \<lparr>geometry = (a, b), properties = [''area'' \<mapsto> Number x]\<rparr>"

text \<open>A sample area with no attribute yet.\<close>

definition site :: "int \<Rightarrow> int \<Rightarrow> (int \<times> int) feature" where
  "site a b = \<lparr>geometry = (a, b), properties = Map.empty\<rparr>"

text \<open>An image with one band, the elevation: cell \<open>p\<close> of the cells 0 to 10 has the
  value \<open>p\<close>, and the other cells have no data.\<close>

definition ramp :: "int image" where
  "ramp = (\<lambda>b. if b = ''elevation''
               then (\<lambda>p. if 0 \<le> p \<and> p \<le> 10 then Some (real_of_int p) else None)
               else Map.empty)"

definition elevation :: "int RasterDataset" where
  "elevation = RasterDataset_init (Image ramp) ''elevation'' None False []"

text \<open>An image with one band of land cover classes on the cells 0 to 4.\<close>

definition classes :: "int image" where
  "classes = (\<lambda>b. if b = ''landcover'' then [0 \<mapsto> 1, 1 \<mapsto> 1, 2 \<mapsto> 6, 3 \<mapsto> 7, 4 \<mapsto> 8]
                  else Map.empty)"

definition landcover :: "bool \<Rightarrow> int RasterDataset" where
  "landcover c = RasterDataset_init (Image classes) ''landcover'' None c []"



section \<open>Features and collections\<close>

lemma property_value_feature_set:
  "property_value (feature_set f k v) k' = (if k' = k then v else property_value f k')"
  by (simp add: property_value_def feature_set_def)

lemma geometry_feature_set: "geometry (feature_set f k v) = geometry f"
  by (simp add: feature_set_def)

lemma properties_feature_set: "properties (feature_set f k v) = (properties f)(k \<mapsto> v)"
  by (simp add: feature_set_def)

lemma fold_max_Max: "fold max xs (x::real) = Max (insert x (set xs))"
  using Max.set_eq_fold [of x xs] by simp

lemma area_numbers:
  "List.map_filter (\<lambda>f. number_of (property_value f ''area''))
     (map (\<lambda>f. feature_set f ''area'' (Number (a f))) fs) = map a fs"
  by (induction fs) (simp_all add: property_value_feature_set)

lemma aggregate_max_area:
  "fs \<noteq> [] \<Longrightarrow>
   aggregate_max (map (\<lambda>f. feature_set f ''area'' (Number (a f))) fs) ''area''
     = Number (Max (set (map a fs)))"
  unfolding aggregate_max_def area_numbers
  by (cases fs) (simp_all add: fold_max_Max)

lemma ee_first_filter_append:
  "\<forall>x\<in>set xs. \<not> P x \<Longrightarrow> P y \<Longrightarrow> ee_first (filter P (xs @ y # ys)) = Some y"
  by (induction xs) simp_all

lemma Max_first_maximal:
  fixes a :: "'a \<Rightarrow> real"
  assumes "\<forall>g\<in>set pre. a g < a f" and "\<forall>g\<in>set post. a g \<le> a f"
  shows "Max (set (map a (pre @ f # post))) = a f"
proof (rule Max_eqI)
  show "finite (set (map a (pre @ f # post)))" by simp
  show "a f \<in> set (map a (pre @ f # post))" by simp
  fix y assume "y \<in> set (map a (pre @ f # post))"
  then show "y \<le> a f" using assms by (auto simp: less_imp_le)
qed

lemma geometry_feature_intersection:
  "geometry (feature_intersection svc f g) = intersection svc (geometry f) g"
  by (simp add: feature_intersection_def)

lemma properties_feature_intersection:
  "properties (feature_intersection svc f g) = properties f"
  by (simp add: feature_intersection_def)

lemma line_service_simps:
  "intersects line_service (a, b) (c, d) = (a \<le> d \<and> c \<le> b)"
  "intersection line_service (a, b) (c, d) = (max a c, min b d)"
  "area line_service (a, b) = (if a \<le> b then 100 * real_of_int (b - a) else 0)"
  "geo_distance line_service (a, b) (c, d) =
     (if b < c then 100 * real_of_int (c - b)
      else if d < a then 100 * real_of_int (a - d) else 0)"
  "buffer line_service (a, b) x = (a - \<lceil>x / 100\<rceil>, b + \<lceil>x / 100\<rceil>)"
  "point line_service x y = (\<lfloor>x\<rfloor>, \<lfloor>x\<rfloor>)"
  "region_pixels line_service (a, b) s = [a..b]"
  "kernel_pixels line_service r p =
     map (\<lambda>q. (q, 100 * real_of_int \<bar>q - p\<bar>)) [p - \<lfloor>r / 100\<rfloor>..p + \<lfloor>r / 100\<rfloor>]"
  by (simp_all add: line_service_def)

section \<open>The predominant feature\<close>

lemma predominant_first_maximal:
  assumes "\<forall>g\<in>set pre. area svc (geometry g) < area svc (geometry f)"
    and "\<forall>g\<in>set post. area svc (geometry g) \<le> area svc (geometry f)"
  shows "VectorDataset_get_predominant_feature svc (pre @ f # post)
           = Some (feature_set f ''area'' (Number (area svc (geometry f))))"
proof -
  let ?a = "\<lambda>f. area svc (geometry f)"
  let ?h = "\<lambda>f. feature_set f ''area'' (Number (?a f))"
  have m: "aggregate_max (map ?h (pre @ f # post)) ''area'' = Number (?a f)"
    using aggregate_max_area [of "pre @ f # post" ?a] Max_first_maximal [of pre ?a f post] assms
    by simp
  have "ee_first (filter (\<lambda>x. filter_gte (property_value x ''area'') (Number (?a f)))
          (map ?h pre @ ?h f # map ?h post)) = Some (?h f)"
    by (rule ee_first_filter_append) (use assms in \<open>auto simp: property_value_feature_set\<close>)
  then show ?thesis
    unfolding VectorDataset_get_predominant_feature_def Let_def m by simp
qed

text \<open>
  C9. \<^verbatim>\<open>get_predominant_feature\<close> returns the first feature, in the collection's order,
  whose area is the maximum: when every feature before \<open>f\<close> has a strictly smaller area
  and no feature after \<open>f\<close> has a larger one (some may have the same area as \<open>f\<close>), the
  result is \<open>f\<close>, with the area stored under \<^verbatim>\<open>area\<close>. The result is a function of the
  collection, so two calls on the same collection return the same feature.
\<close>

theorem get_predominant_feature_first_of_ties:
  assumes "\<forall>g\<in>set pre. area svc (geometry g) < area svc (geometry f)"
    and "\<forall>g\<in>set post. area svc (geometry g) \<le> area svc (geometry f)"
  shows "VectorDataset_get_predominant_feature svc (pre @ f # post)
           = Some (feature_set f ''area'' (Number (area svc (geometry f))))"
  using assms by (rule predominant_first_maximal)

text \<open>Two features of area 300 after one of area 100: the first of the two is returned.\<close>

theorem get_predominant_feature_first_of_ties_witness:
  "VectorDataset_get_predominant_feature line_service
     [region 0 1 ''A'', region 0 3 ''B'', region 5 8 ''C'']
   = Some (feature_set (region 0 3 ''B'') ''area'' (Number 300))"
  using get_predominant_feature_first_of_ties
    [of "[region 0 1 ''A'']" line_service "region 0 3 ''B''" "[region 5 8 ''C'']"]
  by (simp add: line_service_def region_def)

section \<open>VectorDataset.get_sample_area_data\<close>

lemma predominant_branch:
  assumes "2 \<le> length (filterBounds svc (VectorDataset.data self) (geometry sa))"
  shows "VectorDataset_get_sample_area_data svc self sa =
          (case element_get
                  (VectorDataset_get_predominant_feature svc
                     (map (\<lambda>f. feature_intersection svc f (geometry sa))
                        (filterBounds svc (VectorDataset.data self) (geometry sa))))
                  (property self) of
             Inl e \<Rightarrow> Inl e
           | Inr v \<Rightarrow> Inr (feature_set sa (VectorDataset.name self) v))"
  using assms by (auto simp: VectorDataset_get_sample_area_data_def)

text \<open>
  With two or more overlaps, the value attached comes from the first feature \<open>f\<close> of
  maximal intersection area: it is the property of \<open>f\<close>, unless the property asked for is
  \<^verbatim>\<open>area\<close> itself, which \<^verbatim>\<open>get_predominant_feature\<close> has replaced by the intersection area.
\<close>

lemma predominant_value:
  assumes fs: "filterBounds svc (VectorDataset.data self) (geometry sa) = pre @ f # post"
    and two: "pre \<noteq> [] \<or> post \<noteq> []"
    and lt: "\<forall>g\<in>set pre. area svc (intersection svc (geometry g) (geometry sa))
                           < area svc (intersection svc (geometry f) (geometry sa))"
    and le: "\<forall>g\<in>set post. area svc (intersection svc (geometry g) (geometry sa))
                           \<le> area svc (intersection svc (geometry f) (geometry sa))"
  shows "VectorDataset_get_sample_area_data svc self sa =
           Inr (feature_set sa (VectorDataset.name self)
                  (if property self = ''area''
                   then Number (area svc (intersection svc (geometry f) (geometry sa)))
                   else property_value f (property self)))"
proof -
  let ?h = "\<lambda>f. feature_intersection svc f (geometry sa)"
  have len: "2 \<le> length (filterBounds svc (VectorDataset.data self) (geometry sa))"
    using two unfolding fs by (cases pre; cases post) simp_all
  have p: "VectorDataset_get_predominant_feature svc (map ?h pre @ ?h f # map ?h post)
             = Some (feature_set (?h f) ''area'' (Number (area svc (geometry (?h f)))))"
    by (rule predominant_first_maximal) (use lt le in \<open>simp_all add: geometry_feature_intersection\<close>)
  show ?thesis
    unfolding predominant_branch [OF len] fs using p
    by (simp add: properties_feature_set properties_feature_intersection
          geometry_feature_intersection property_value_def)
qed

lemma predominant_property_attached:
  assumes "property self \<noteq> ''area''"
    and "filterBounds svc (VectorDataset.data self) (geometry sa) = pre @ f # post"
    and "pre \<noteq> [] \<or> post \<noteq> []"
    and "\<forall>g\<in>set pre. area svc (intersection svc (geometry g) (geometry sa))
                           < area svc (intersection svc (geometry f) (geometry sa))"
    and "\<forall>g\<in>set post. area svc (intersection svc (geometry g) (geometry sa))
                           \<le> area svc (intersection svc (geometry f) (geometry sa))"
  shows "VectorDataset_get_sample_area_data svc self sa =
           Inr (feature_set sa (VectorDataset.name self) (property_value f (property self)))"
  using predominant_value [OF assms(2-5)] assms(1) by simp

text \<open>
  C2. The claim is that, with more than one overlap, the value attached is the property
  of the overlapping feature of largest intersection area. \<^verbatim>\<open>get_predominant_feature\<close>
  stores the intersection area in every overlap under the key \<^verbatim>\<open>area\<close> before it picks
  one. For a dataset whose property is \<^verbatim>\<open>area\<close> the value attached is therefore the
  intersection area, not the property of the feature; the branches for one and for no
  overlap read the property of the feature itself. For every other property the claim
  holds (\<open>predominant_property_attached\<close>).
\<close>

theorem predominant_area_property_replaced:
  assumes "property self = ''area''"
    and "filterBounds svc (VectorDataset.data self) (geometry sa) = pre @ f # post"
    and "pre \<noteq> [] \<or> post \<noteq> []"
    and "\<forall>g\<in>set pre. area svc (intersection svc (geometry g) (geometry sa))
                           < area svc (intersection svc (geometry f) (geometry sa))"
    and "\<forall>g\<in>set post. area svc (intersection svc (geometry g) (geometry sa))
                           \<le> area svc (intersection svc (geometry f) (geometry sa))"
  shows "VectorDataset_get_sample_area_data svc self sa =
           Inr (feature_set sa (VectorDataset.name self)
                  (Number (area svc (intersection svc (geometry f) (geometry sa)))))"
  using predominant_value [OF assms(2-5)] assms(1) by simp

text \<open>Two parcels that record the areas 7 and 9; the sample area overlaps the first over
  200 metres and the second over 100 metres. The value attached is 200, not 7.\<close>

theorem predominant_area_property_replaced_witness:
  "VectorDataset_get_sample_area_data line_service
     (VectorDataset_init [parcel 0 5 7, parcel 6 20 9] ''area'' None []) (site 3 7)
   = Inr (feature_set (site 3 7) ''area'' (Number 200))
   \<and> property_value (parcel 0 5 7) ''area'' = Number 7"
  using predominant_area_property_replaced
    [of "VectorDataset_init [parcel 0 5 7, parcel 6 20 9] ''area'' None []"
        line_service "site 3 7" "[]" "parcel 0 5 7" "[parcel 6 20 9]"]
  by (simp add: line_service_simps parcel_def site_def VectorDataset_init_def name_or_def
        filterBounds_def property_value_def)

text \<open>
  C10. The branch is chosen by the number of features of the layer whose geometry
  intersects the sample geometry, whatever the area of the intersection: as soon as two
  features intersect it, the value is that of the predominant feature among all of them,
  those of zero intersection area included.
\<close>

theorem overlap_count_ignores_area:
  assumes "2 \<le> length (filter (\<lambda>f. intersects svc (geometry f) (geometry sa))
                         (VectorDataset.data self))"
  shows "VectorDataset_get_sample_area_data svc self sa =
          (case element_get
                  (VectorDataset_get_predominant_feature svc
                     (map (\<lambda>f. feature_intersection svc f (geometry sa))
                        (filter (\<lambda>f. intersects svc (geometry f) (geometry sa))
                           (VectorDataset.data self))))
                  (property self) of
             Inl e \<Rightarrow> Inl e
           | Inr v \<Rightarrow> Inr (feature_set sa (VectorDataset.name self) v))"
  using predominant_branch [of svc self sa] assms by (simp add: filterBounds_def)

text \<open>Region A ends where the sample area begins (an intersection of area 0) and region
  B overlaps it: the predominant feature is looked for among both.\<close>

theorem overlap_count_ignores_area_witness:
  "area line_service (intersection line_service (geometry (region 0 3 ''A'')) (geometry (site 3 5))) = 0
   \<and> VectorDataset_get_sample_area_data line_service
     (VectorDataset_init [region 0 3 ''A'', region 3 9 ''B''] ''label'' None []) (site 3 5)
     = (case element_get
                  (VectorDataset_get_predominant_feature line_service
                     [feature_intersection line_service (region 0 3 ''A'') (3, 5),
                      feature_intersection line_service (region 3 9 ''B'') (3, 5)])
                  ''label'' of
             Inl e \<Rightarrow> Inl e
           | Inr v \<Rightarrow> Inr (feature_set (site 3 5) ''label'' v))
   \<and> VectorDataset_get_sample_area_data line_service
     (VectorDataset_init [region 0 3 ''A'', region 3 9 ''B''] ''label'' None []) (site 3 5)
     = Inr (feature_set (site 3 5) ''label'' (String ''B''))"
  using overlap_count_ignores_area
    [of line_service "site 3 5" "VectorDataset_init [region 0 3 ''A'', region 3 9 ''B''] ''label'' None []"]
  by (simp add: line_service_simps region_def site_def VectorDataset_init_def name_or_def
        VectorDataset_get_predominant_feature_def aggregate_max_def feature_intersection_def
        feature_set_def property_value_def)

text \<open>
  C3. The claim is that a sample area with no overlap and no feature of the layer within
  10000 metres gets "no value". The join of \<^verbatim>\<open>get_nearest_feature\<close> is then empty, its
  first element is null, and \<^verbatim>\<open>result.get('closestFeature')\<close> is a call on null: the
  request fails instead of attaching a value.
\<close>

theorem no_match_is_a_fault:
  assumes "\<forall>f\<in>set (VectorDataset.data self). \<not> intersects svc (geometry f) (geometry sa)"
    and "\<forall>f\<in>set (VectorDataset.data self). 10000 < geo_distance svc (geometry sa) (geometry f)"
  shows "VectorDataset_get_sample_area_data svc self sa = Inl NullObject"
proof -
  have a: "filterBounds svc (VectorDataset.data self) (geometry sa) = []"
    using assms(1) by (simp add: filterBounds_def)
  have b: "filter (\<lambda>s. geo_distance svc (geometry sa) (geometry s) \<le> 10000)
             (VectorDataset.data self) = []"
    using assms(2) by (auto simp: filter_empty_conv)
  show ?thesis
    by (simp add: VectorDataset_get_sample_area_data_def a
          VectorDataset_get_nearest_feature_def saveBest_apply_def b)
qed

text \<open>The only region of the layer is 19700 metres from the sample area.\<close>

theorem no_match_is_a_fault_witness:
  "VectorDataset_get_sample_area_data line_service
     (VectorDataset_init [region 0 3 ''A''] ''label'' None []) (site 200 201) = Inl NullObject"
  using no_match_is_a_fault
    [of "VectorDataset_init [region 0 3 ''A''] ''label'' None []" line_service "site 200 201"]
  by (simp add: line_service_simps region_def site_def VectorDataset_init_def)

section \<open>RasterDataset\<close>

lemma RasterDataset_init_simps:
  "band (RasterDataset_init snip b nm cat ps) = name_or nm b"
  "RasterDataset.name (RasterDataset_init snip b nm cat ps) = name_or nm b"
  "categorical (RasterDataset_init snip b nm cat ps) = cat"
  "RasterDataset.data (RasterDataset_init (Image i) b nm cat ps) = image_select i b (name_or nm b)"
  "RasterDataset.data (RasterDataset_init (ImageCollection c) b nm cat ps)
     = mosaic (collection_select c b (name_or nm b))"
  by (simp_all add: RasterDataset_init_def Let_def)

lemma raster_get_sample_area_data_eq:
  "RasterDataset_get_sample_area_data svc self sa =
     feature_set sa (band self)
       (ee_number_value
          (reduceRegion svc (RasterDataset.data self) (if categorical self then Mode else Median)
             (reduction_geometry svc sa (RasterDataset_distance svc self (geometry sa)))
             100 (band self)))"
  by (simp add: RasterDataset_get_sample_area_data_def RasterDataset_mode_def
        RasterDataset_median_def)

lemma map_filter_all_None: "\<forall>x\<in>set xs. f x = None \<Longrightarrow> List.map_filter f xs = []"
  by (induction xs) simp_all

lemma mosaic_single: "mosaic [i] = i"
  by (simp add: mosaic_def)

subsection \<open>The examples, evaluated\<close>

lemma elevation_fields:
  "band elevation = ''elevation''"
  "categorical elevation = False"
  "RasterDataset.data elevation ''elevation''
     = (\<lambda>p. if 0 \<le> p \<and> p \<le> 10 then Some (real_of_int p) else None)"
  by (simp_all add: elevation_def RasterDataset_init_simps name_or_def image_select_def ramp_def)

lemma elevation_distance:
  "RasterDataset_distance line_service elevation (12, 13) = Some 250"
  "RasterDataset_distance line_service elevation (2, 4) = Some 0"
  "RasterDataset_distance line_service elevation (30, 31) = None"
  by (simp_all add: RasterDataset_distance_def reduceRegion_def image_select_def image_distance_def
        elevation_fields line_service_simps upto_rec1)

lemma elevation_reduce:
  "reduceRegion line_service (RasterDataset.data elevation) Median (9, 16) 100 ''elevation''
     = Some (19 / 2)"
  "reduceRegion line_service (RasterDataset.data elevation) Median (2, 4) 100 ''elevation''
     = Some 3"
  "reduceRegion line_service (RasterDataset.data elevation) Median (30, 31) 100 ''elevation''
     = None"
  by (simp_all add: reduceRegion_def elevation_fields line_service_simps upto_rec1 median_of_def)

lemma elevation_median:
  "RasterDataset_median line_service elevation (9, 16) = Some (19 / 2)"
  "RasterDataset_median line_service elevation (2, 4) = Some 3"
  "RasterDataset_median line_service elevation (30, 31) = None"
  by (simp_all add: RasterDataset_median_def elevation_fields elevation_reduce)

lemma landcover_fields:
  "band (landcover c) = ''landcover''"
  "categorical (landcover c) = c"
  "RasterDataset.data (landcover c) ''landcover'' = [0 \<mapsto> 1, 1 \<mapsto> 1, 2 \<mapsto> 6, 3 \<mapsto> 7, 4 \<mapsto> 8]"
  by (simp_all add: landcover_def RasterDataset_init_simps name_or_def image_select_def classes_def)

lemma landcover_distance:
  "RasterDataset_distance line_service (landcover c) (0, 4) = Some 0"
  by (simp add: RasterDataset_distance_def reduceRegion_def image_select_def image_distance_def
        landcover_fields line_service_simps upto_rec1)

lemma landcover_reduce:
  "reduceRegion line_service (RasterDataset.data (landcover c)) Mode (0, 4) 100 ''landcover'' = Some 1"
  "reduceRegion line_service (RasterDataset.data (landcover c)) Median (0, 4) 100 ''landcover'' = Some 6"
  by (simp_all add: reduceRegion_def landcover_fields line_service_simps upto_rec1 median_of_def)

subsection \<open>The geometry reduced over\<close>

text \<open>
  C1. \<^verbatim>\<open>RasterDataset.get_sample_area_data\<close> reduces over the sample geometry itself when
  the distance to coverage is null or 0, and over the sample geometry buffered by \<open>d\<close>
  when the distance is a positive number \<open>d\<close>; the reduction is attached under the name
  of the band.
\<close>

theorem raster_geometry_selection:
  assumes "RasterDataset_distance svc self (geometry sa) = distance"
  shows "(distance = None \<longrightarrow>
            RasterDataset_get_sample_area_data svc self sa =
              feature_set sa (band self)
                (ee_number_value (if categorical self then RasterDataset_mode svc self (geometry sa)
                                  else RasterDataset_median svc self (geometry sa))))
       \<and> (distance = Some 0 \<longrightarrow>
            RasterDataset_get_sample_area_data svc self sa =
              feature_set sa (band self)
                (ee_number_value (if categorical self then RasterDataset_mode svc self (geometry sa)
                                  else RasterDataset_median svc self (geometry sa))))
       \<and> (\<forall>d. 0 < d \<longrightarrow> distance = Some d \<longrightarrow>
            RasterDataset_get_sample_area_data svc self sa =
              feature_set sa (band self)
                (ee_number_value
                   (if categorical self
                    then RasterDataset_mode svc self (buffer svc (geometry sa) d)
                    else RasterDataset_median svc self (buffer svc (geometry sa) d))))"
  using assms
  by (simp add: RasterDataset_get_sample_area_data_def reduction_geometry_def)

text \<open>The elevation layer covers the cells 0 to 10. A sample area on the cells 30 to 31
  is out of reach (null), one on the cells 2 to 4 is covered (distance 0, median 3), and
  one on the cells 12 to 13 is at the mean distance 250: it is reduced over the cells 9 to
  16, where the layer has the values 9 and 10.\<close>

theorem raster_geometry_selection_witness:
  "RasterDataset_get_sample_area_data line_service elevation (site 30 31)
     = feature_set (site 30 31) ''elevation'' Null
   \<and> RasterDataset_get_sample_area_data line_service elevation (site 2 4)
     = feature_set (site 2 4) ''elevation'' (Number 3)
   \<and> RasterDataset_get_sample_area_data line_service elevation (site 12 13)
     = feature_set (site 12 13) ''elevation'' (Number (19 / 2))"
  using raster_geometry_selection [of line_service elevation "site 30 31" None]
    raster_geometry_selection [of line_service elevation "site 2 4" "Some 0"]
    raster_geometry_selection [of line_service elevation "site 12 13" "Some 250"]
  by (simp add: site_def elevation_distance elevation_median elevation_fields line_service_simps)

subsection \<open>The statistic\<close>

text \<open>
  C4. The statistic of the reduction is the mode when the dataset is categorical and the
  median when it is not, and \<open>categorical\<close> is the flag the dataset was constructed with.
  A query returns the augmented sample area only: the dataset, and with it the flag, is
  the same for every query.
\<close>

theorem statistic_by_categorical:
  "(categorical self \<longrightarrow>
      RasterDataset_get_sample_area_data svc self sa =
        feature_set sa (band self)
          (ee_number_value
             (reduceRegion svc (RasterDataset.data self) Mode
                (reduction_geometry svc sa (RasterDataset_distance svc self (geometry sa)))
                100 (band self))))
   \<and> (\<not> categorical self \<longrightarrow>
      RasterDataset_get_sample_area_data svc self sa =
        feature_set sa (band self)
          (ee_number_value
             (reduceRegion svc (RasterDataset.data self) Median
                (reduction_geometry svc sa (RasterDataset_distance svc self (geometry sa)))
                100 (band self))))
   \<and> categorical (RasterDataset_init snip b nm cat ps) = cat"
  by (simp add: raster_get_sample_area_data_eq RasterDataset_init_simps)

text \<open>Over the classes 1, 1, 6, 7, 8 the categorical dataset attaches the mode, 1, and
  the continuous one the median, 6.\<close>

theorem statistic_by_categorical_witness:
  "RasterDataset_get_sample_area_data line_service (landcover True) (site 0 4)
     = feature_set (site 0 4) ''landcover'' (Number 1)
   \<and> RasterDataset_get_sample_area_data line_service (landcover False) (site 0 4)
     = feature_set (site 0 4) ''landcover'' (Number 6)"
  using statistic_by_categorical
      [of "landcover True" line_service "site 0 4" "Image classes" "''landcover''" None True "[]"]
    statistic_by_categorical
      [of "landcover False" line_service "site 0 4" "Image classes" "''landcover''" None False "[]"]
  by (simp add: site_def landcover_fields landcover_distance landcover_reduce reduction_geometry_def)

subsection \<open>Out of reach of the layer\<close>

text \<open>
  C5. When no cell of the sample geometry has valid data and the kernel of radius 1000
  reaches no cell with valid data from any cell of the sample geometry, the distance to
  coverage is null (it is not 0) and the attribute attached is null. The distance
  transform and the reducers are the ones modelled from the spec.
\<close>

theorem beyond_search_radius_no_value:
  assumes "\<forall>p\<in>set (region_pixels svc (geometry sa) 100).
             RasterDataset.data self (band self) p = None
             \<and> (\<forall>(q, d)\<in>set (kernel_pixels svc 1000 p).
                   RasterDataset.data self (band self) q = None)"
  shows "RasterDataset_distance svc self (geometry sa) = None
       \<and> RasterDataset_get_sample_area_data svc self sa = feature_set sa (band self) Null"
proof -
  have k: "nearest_distance
             (map snd (filter (\<lambda>(q, d). RasterDataset.data self (band self) q \<noteq> None)
                         (kernel_pixels svc 1000 p))) = None"
    if "p \<in> set (region_pixels svc (geometry sa) 100)" for p
  proof -
    have "filter (\<lambda>(q, d). RasterDataset.data self (band self) q \<noteq> None)
            (kernel_pixels svc 1000 p) = []"
      using assms that by (fastforce simp: filter_empty_conv)
    then show ?thesis by simp
  qed
  have "List.map_filter
          (\<lambda>p. nearest_distance
                 (map snd (filter (\<lambda>(q, d). RasterDataset.data self (band self) q \<noteq> None)
                             (kernel_pixels svc 1000 p))))
          (region_pixels svc (geometry sa) 100) = []"
    using k by (intro map_filter_all_None ballI)
  then have d: "RasterDataset_distance svc self (geometry sa) = None"
    unfolding RasterDataset_distance_def reduceRegion_def image_select_def image_distance_def Let_def
    by simp
  have v: "List.map_filter (RasterDataset.data self (band self))
             (region_pixels svc (geometry sa) 100) = []"
    using assms by (simp add: map_filter_all_None)
  show ?thesis
    by (simp add: d raster_get_sample_area_data_eq reduction_geometry_def reduceRegion_def v)
qed

theorem beyond_search_radius_no_value_witness:
  "RasterDataset_distance line_service elevation (geometry (site 30 31)) = None
   \<and> RasterDataset_get_sample_area_data line_service elevation (site 30 31)
       = feature_set (site 30 31) ''elevation'' Null"
  using beyond_search_radius_no_value [of line_service "site 30 31" elevation]
  by (simp add: site_def elevation_fields line_service_simps upto_rec1)

subsection \<open>A collection of one image\<close>

text \<open>
  C6. A dataset constructed from a collection that holds the single image \<open>i\<close> answers
  every query as the dataset constructed from \<open>i\<close> itself, for the same band, name and
  flag. The mosaic is the one modelled from the spec.
\<close>

theorem single_image_collection:
  "RasterDataset_get_sample_area_data svc (RasterDataset_init (ImageCollection [i]) b nm cat ps) sa
   = RasterDataset_get_sample_area_data svc (RasterDataset_init (Image i) b nm cat ps) sa"
  by (simp add: RasterDataset_init_def collection_select_def mosaic_single)

theorem single_image_collection_witness:
  "RasterDataset_get_sample_area_data line_service
     (RasterDataset_init (ImageCollection [ramp]) ''elevation'' None False []) (site 12 13)
   = feature_set (site 12 13) ''elevation'' (Number (19 / 2))"
  using single_image_collection [of line_service ramp "''elevation''" None False "[]" "site 12 13"]
    raster_get_sample_area_data_eq [of line_service elevation "site 12 13"]
  by (simp add: elevation_def [symmetric] site_def elevation_distance elevation_fields
        reduction_geometry_def line_service_simps elevation_reduce)

section \<open>The frame of a query\<close>

lemma attach_Inr:
  "(case x of Inl e \<Rightarrow> Inl e | Inr v \<Rightarrow> Inr (feature_set sa k v)) = Inr out
   \<Longrightarrow> \<exists>v. out = feature_set sa k v"
  by (cases x) auto

lemma vector_result_frame:
  assumes "VectorDataset_get_sample_area_data svc self sa = Inr out"
  shows "\<exists>v. out = feature_set sa (VectorDataset.name self) v"
proof -
  let ?ov = "map (\<lambda>feature. feature_intersection svc feature (geometry sa))
               (filterBounds svc (VectorDataset.data self) (geometry sa))"
  show ?thesis
  proof (cases "length ?ov = 1")
    case True
    with assms have "(case element_get (ee_first ?ov) (property self) of
                        Inl e \<Rightarrow> Inl e
                      | Inr v \<Rightarrow> Inr (feature_set sa (VectorDataset.name self) v)) = Inr out"
      by (simp add: VectorDataset_get_sample_area_data_def)
    then show ?thesis by (rule attach_Inr)
  next
    case one: False
    show ?thesis
    proof (cases "length ?ov = 0")
      case True
      with assms have n: "(case VectorDataset_get_nearest_feature svc self sa of
                Inl e \<Rightarrow> Inl e
              | Inr nearest \<Rightarrow>
                  (case element_get (Some nearest) (property self) of
                     Inl e \<Rightarrow> Inl e
                   | Inr v \<Rightarrow> Inr (feature_set sa (VectorDataset.name self) v))) = Inr out"
        by (simp add: VectorDataset_get_sample_area_data_def)
      show ?thesis
      proof (cases "VectorDataset_get_nearest_feature svc self sa")
        case (Inl e)
        with n show ?thesis by simp
      next
        case (Inr f)
        with n have "(case element_get (Some f) (property self) of
                     Inl e \<Rightarrow> Inl e
                   | Inr v \<Rightarrow> Inr (feature_set sa (VectorDataset.name self) v)) = Inr out"
          by simp
        then show ?thesis by (rule attach_Inr)
      qed
    next
      case False
      with one assms have "(case element_get (VectorDataset_get_predominant_feature svc ?ov)
                                   (property self) of
                        Inl e \<Rightarrow> Inl e
                      | Inr v \<Rightarrow> Inr (feature_set sa (VectorDataset.name self) v)) = Inr out"
        by (simp add: VectorDataset_get_sample_area_data_def)
      then show ?thesis by (rule attach_Inr)
    qed
  qed
qed

lemma regions_example:
  "VectorDataset_get_sample_area_data line_service
     (VectorDataset_init [region 0 3 ''A'', region 3 9 ''B''] ''label'' None []) (site 3 5)
     = Inr (feature_set (site 3 5) ''label'' (String ''B''))"
  by (simp add: VectorDataset_get_sample_area_data_def filterBounds_def
        line_service_simps region_def site_def VectorDataset_init_def name_or_def
        VectorDataset_get_predominant_feature_def aggregate_max_def feature_intersection_def
        feature_set_def property_value_def)

text \<open>
  C7, as amended. A raster query returns the sample area with the value set under the
  name of the dataset (its band, renamed to the name at construction), and a vector query
  that returns a sample area returns it with the value set under the name of the dataset:
  the geometry is the geometry of the input, and the attributes are those of the input but
  for the one under the name, which is added when the input has none and replaced when it
  has one. The functions have no other result, so neither the dataset nor its layer
  changes.
\<close>

theorem attribute_set_frame:
  "geometry (RasterDataset_get_sample_area_data svc rds sa) = geometry sa
   \<and> (\<exists>v. properties (RasterDataset_get_sample_area_data svc rds sa)
              = (properties sa)(band rds \<mapsto> v))
   \<and> band (RasterDataset_init snip b nm cat ps)
       = RasterDataset.name (RasterDataset_init snip b nm cat ps)
   \<and> (\<forall>out. VectorDataset_get_sample_area_data svc' vds sa' = Inr out \<longrightarrow>
         geometry out = geometry sa'
         \<and> (\<exists>v. properties out = (properties sa')(VectorDataset.name vds \<mapsto> v)))"
proof (intro conjI allI impI)
  show "geometry (RasterDataset_get_sample_area_data svc rds sa) = geometry sa"
    by (simp add: raster_get_sample_area_data_eq geometry_feature_set)
  show "\<exists>v. properties (RasterDataset_get_sample_area_data svc rds sa)
              = (properties sa)(band rds \<mapsto> v)"
    unfolding raster_get_sample_area_data_eq properties_feature_set by (rule exI) (rule refl)
  show "band (RasterDataset_init snip b nm cat ps)
       = RasterDataset.name (RasterDataset_init snip b nm cat ps)"
    by (simp add: RasterDataset_init_simps)
next
  fix out assume "VectorDataset_get_sample_area_data svc' vds sa' = Inr out"
  then obtain v where out: "out = feature_set sa' (VectorDataset.name vds) v"
    using vector_result_frame by blast
  show "geometry out = geometry sa'"
    unfolding out by (rule geometry_feature_set)
  show "\<exists>v. properties out = (properties sa')(VectorDataset.name vds \<mapsto> v)"
    unfolding out properties_feature_set by (rule exI) (rule refl)
qed

theorem attribute_set_frame_witness:
  "geometry (RasterDataset_get_sample_area_data line_service elevation (site 2 4)) = (2, 4)
   \<and> (\<exists>out. VectorDataset_get_sample_area_data line_service
         (VectorDataset_init [region 0 3 ''A'', region 3 9 ''B''] ''label'' None []) (site 3 5)
         = Inr out
       \<and> geometry out = (3, 5)
       \<and> (\<exists>v. properties out = (properties (site 3 5))(''label'' \<mapsto> v)))"
  using attribute_set_frame
    [of line_service elevation "site 2 4" "Image ramp" "''elevation''" None False "[]"
        line_service "VectorDataset_init [region 0 3 ''A'', region 3 9 ''B''] ''label'' None []"
        "site 3 5"]
    regions_example
  by (simp add: site_def VectorDataset_init_def name_or_def)

text \<open>The claim as stated fails on a sample area that already has an attribute under the
  name of the dataset: the attribute is replaced, and no attribute is added.\<close>

theorem existing_attribute_replaced:
  "properties (feature_set (site 2 4) ''elevation'' (Number 5)) ''elevation'' = Some (Number 5)
   \<and> properties (RasterDataset_get_sample_area_data line_service elevation
        (feature_set (site 2 4) ''elevation'' (Number 5))) ''elevation'' = Some (Number 3)
   \<and> dom (properties (RasterDataset_get_sample_area_data line_service elevation
        (feature_set (site 2 4) ''elevation'' (Number 5))))
     = dom (properties (feature_set (site 2 4) ''elevation'' (Number 5)))"
  by (simp add: raster_get_sample_area_data_eq properties_feature_set geometry_feature_set
        site_def elevation_fields elevation_distance reduction_geometry_def elevation_reduce)

section \<open>The buffer radius of the sample areas\<close>

subsection \<open>The median of a column\<close>

text \<open>
  \<open>series_median\<close> is the median: for a column of odd length it is an entry with fewer
  than half of the entries below it and fewer than half above it; for a column of even
  length it is the mean, in doubles, of the two middle entries \<open>a\<close> and \<open>b\<close>, where fewer
  than half of the entries are below \<open>a\<close> and at least half are not above it, and fewer
  than half are above \<open>b\<close> and at least half are not below it.
\<close>

lemma length_filter_insort:
  "length (filter P (insort x xs)) = length (filter P (x # xs))"
  by (induction xs) auto

lemma length_filter_sort: "length (filter P (sort xs)) = length (filter P xs)"
  by (induction xs) (simp_all add: length_filter_insort)

lemma filter_split_at:
  "length (filter P s) = length (filter P (take k s)) + length (filter P (drop k s))"
  by (metis append_take_drop_id filter_append length_append)

lemma sorted_drop_ge:
  fixes s :: "real list"
  assumes "sorted s" and "k < length s" and "x \<in> set (drop k s)"
  shows "s ! k \<le> x"
proof -
  obtain i where "i < length (drop k s)" and "x = drop k s ! i"
    using assms(3) by (auto simp: in_set_conv_nth)
  then have "x = s ! (k + i)" and "k + i < length s" by auto
  then show ?thesis using assms(1) by (simp add: sorted_nth_mono)
qed

lemma sorted_take_le:
  fixes s :: "real list"
  assumes "sorted s" and "k < length s" and "x \<in> set (take (Suc k) s)"
  shows "x \<le> s ! k"
proof -
  obtain i where "i < length (take (Suc k) s)" and "x = take (Suc k) s ! i"
    using assms(3) by (auto simp: in_set_conv_nth)
  then have "x = s ! i" and "i \<le> k" by auto
  then show ?thesis using assms(1,2) by (simp add: sorted_nth_mono)
qed

lemma sorted_count_less:
  fixes s :: "real list"
  assumes "sorted s" and "k < length s"
  shows "length (filter (\<lambda>x. x < s ! k) s) \<le> k"
proof -
  have "filter (\<lambda>x. x < s ! k) (drop k s) = []"
    using sorted_drop_ge [OF assms] by (fastforce simp: filter_empty_conv)
  then have "length (filter (\<lambda>x. x < s ! k) s) = length (filter (\<lambda>x. x < s ! k) (take k s))"
    using filter_split_at [of "\<lambda>x. x < s ! k" s k] by simp
  also have "\<dots> \<le> length (take k s)" by (rule length_filter_le)
  finally show ?thesis by simp
qed

lemma sorted_count_greater:
  fixes s :: "real list"
  assumes "sorted s" and "k < length s"
  shows "length (filter (\<lambda>x. s ! k < x) s) \<le> length s - Suc k"
proof -
  have "filter (\<lambda>x. s ! k < x) (take (Suc k) s) = []"
    using sorted_take_le [OF assms] by (fastforce simp: filter_empty_conv)
  then have "length (filter (\<lambda>x. s ! k < x) s)
               = length (filter (\<lambda>x. s ! k < x) (drop (Suc k) s))"
    using filter_split_at [of "\<lambda>x. s ! k < x" s "Suc k"] by simp
  also have "\<dots> \<le> length (drop (Suc k) s)" by (rule length_filter_le)
  finally show ?thesis by simp
qed

lemma sorted_count_le:
  fixes s :: "real list"
  assumes "sorted s" and "k < length s"
  shows "Suc k \<le> length (filter (\<lambda>x. x \<le> s ! k) s)"
proof -
  have "filter (\<lambda>x. x \<le> s ! k) (take (Suc k) s) = take (Suc k) s"
    using sorted_take_le [OF assms] by (auto simp: filter_id_conv)
  then have "length (filter (\<lambda>x. x \<le> s ! k) (take (Suc k) s)) = Suc k"
    using assms(2) by simp
  then show ?thesis
    using filter_split_at [of "\<lambda>x. x \<le> s ! k" s "Suc k"] by simp
qed

lemma sorted_count_ge:
  fixes s :: "real list"
  assumes "sorted s" and "k < length s"
  shows "length s - k \<le> length (filter (\<lambda>x. s ! k \<le> x) s)"
proof -
  have "filter (\<lambda>x. s ! k \<le> x) (drop k s) = drop k s"
    using sorted_drop_ge [OF assms] by (auto simp: filter_id_conv)
  then have "length (filter (\<lambda>x. s ! k \<le> x) (drop k s)) = length s - k"
    by simp
  then show ?thesis
    using filter_split_at [of "\<lambda>x. s ! k \<le> x" s k] by simp
qed

lemma series_median_odd:
  assumes "odd (length xs)"
  shows "series_median env xs \<in> set xs
       \<and> 2 * length (filter (\<lambda>x. x < series_median env xs) xs) < length xs
       \<and> 2 * length (filter (\<lambda>x. series_median env xs < x) xs) < length xs"
proof -
  let ?s = "sort xs" and ?k = "length xs div 2"
  have n: "length xs = 2 * ?k + 1" using assms by (metis odd_two_times_div_two_succ)
  then have k: "?k < length ?s" by simp
  have m: "series_median env xs = ?s ! ?k"
    using assms by (simp add: series_median_def Let_def odd_iff_mod_2_eq_one)
  have "?s ! ?k \<in> set ?s" using k by (rule nth_mem)
  moreover have "length (filter (\<lambda>x. x < ?s ! ?k) xs) \<le> ?k"
    using sorted_count_less [of ?s ?k] k by (simp add: length_filter_sort)
  moreover have "length (filter (\<lambda>x. ?s ! ?k < x) xs) \<le> length xs - Suc ?k"
    using sorted_count_greater [of ?s ?k] k by (simp add: length_filter_sort)
  ultimately show ?thesis unfolding m using n by auto
qed

lemma series_median_even:
  assumes "even (length xs)" and "xs \<noteq> []"
  shows "\<exists>a b. a \<in> set xs \<and> b \<in> set xs
           \<and> series_median env xs = float64 env (float64 env (a + b) / 2)
           \<and> 2 * length (filter (\<lambda>x. x < a) xs) < length xs
           \<and> length xs \<le> 2 * length (filter (\<lambda>x. x \<le> a) xs)
           \<and> 2 * length (filter (\<lambda>x. b < x) xs) < length xs
           \<and> length xs \<le> 2 * length (filter (\<lambda>x. b \<le> x) xs)"
proof -
  let ?s = "sort xs" and ?k = "length xs div 2"
  have n: "length xs = 2 * ?k" using assms(1) by simp
  have pos: "0 < ?k" using assms(2) n by (cases xs) auto
  have k: "?k < length ?s" "?k - 1 < length ?s" using n pos by simp_all
  have m: "series_median env xs = float64 env (float64 env (?s ! (?k - 1) + ?s ! ?k) / 2)"
    using assms(1) by (simp add: series_median_def Let_def even_iff_mod_2_eq_zero)
  have a: "?s ! (?k - 1) \<in> set xs" using nth_mem [OF k(2)] by simp
  have b: "?s ! ?k \<in> set xs" using nth_mem [OF k(1)] by simp
  have c1: "length (filter (\<lambda>x. x < ?s ! (?k - 1)) xs) \<le> ?k - 1"
    using sorted_count_less [of ?s "?k - 1"] k by (simp add: length_filter_sort)
  have c2: "Suc (?k - 1) \<le> length (filter (\<lambda>x. x \<le> ?s ! (?k - 1)) xs)"
    using sorted_count_le [of ?s "?k - 1"] k by (simp add: length_filter_sort)
  have c3: "length (filter (\<lambda>x. ?s ! ?k < x) xs) \<le> length xs - Suc ?k"
    using sorted_count_greater [of ?s ?k] k by (simp add: length_filter_sort)
  have c4: "length xs - ?k \<le> length (filter (\<lambda>x. ?s ! ?k \<le> x) xs)"
    using sorted_count_ge [of ?s ?k] k by (simp add: length_filter_sort)
  have d1: "2 * length (filter (\<lambda>x. x < ?s ! (?k - 1)) xs) < length xs"
    using c1 n pos by linarith
  have d2: "length xs \<le> 2 * length (filter (\<lambda>x. x \<le> ?s ! (?k - 1)) xs)"
    using c2 n pos by linarith
  have d3: "2 * length (filter (\<lambda>x. ?s ! ?k < x) xs) < length xs"
    using c3 n pos by linarith
  have d4: "length xs \<le> 2 * length (filter (\<lambda>x. ?s ! ?k \<le> x) xs)"
    using c4 n pos by linarith
  from a b m d1 d2 d3 d4 show ?thesis by blast
qed

subsection \<open>From the samples to the sample areas\<close>

lemma geometry_define_feature:
  "map geometry (define_feature_for_sample_areas svc samples br)
     = map (\<lambda>s. buffer svc (point svc (longitude s) (latitude s)) br) samples"
  by (simp add: define_feature_for_sample_areas_def geometry_feature_set)

lemma sample_to_datetime_fields:
  assumes "sample_to_datetime env s = Some t"
  shows "longitude t = longitude s" "latitude t = latitude s"
    "spatial_uncertainty t = spatial_uncertainty s" "sample_id t = sample_id s"
    "to_datetime env (sample_date s) = Some (sample_date t)"
  using assms by (auto simp: sample_to_datetime_def)

lemma dated_points:
  "those (map (sample_to_datetime env) samples) = Some dated \<Longrightarrow>
   map (\<lambda>s. h (longitude s) (latitude s)) dated
     = map (\<lambda>s. h (longitude s) (latitude s)) samples"
proof (induction samples arbitrary: dated)
  case Nil
  then show ?case by simp
next
  case (Cons s samples)
  from Cons.prems obtain t rest
    where t: "sample_to_datetime env s = Some t"
      and rest: "those (map (sample_to_datetime env) samples) = Some rest"
      and dated: "dated = t # rest"
    by (auto split: option.splits)
  show ?case
    unfolding dated using Cons.IH [OF rest] sample_to_datetime_fields(1,2) [OF t] by simp
qed

text \<open>From line 450 on: when every date is read and there is a sample, every sample area is
  the point of its sample buffered by the median of the column of all the samples.\<close>

lemma main_from_samples_uniform_median:
  assumes "those (map (sample_to_datetime env) samples) = Some dated" and "samples \<noteq> []"
  shows "\<exists>areas. main_from_samples env svc samples = Inr areas
           \<and> map geometry areas
             = map (\<lambda>s. buffer svc (point svc (longitude s) (latitude s))
                           (series_median env (map spatial_uncertainty samples))) samples"
proof -
  have "length dated = length samples"
    using dated_points [OF assms(1), of "\<lambda>x y. ()"] by (metis length_map)
  with assms(2) have ne: "dated \<noteq> []" by auto
  show ?thesis
    using assms(1) ne
      dated_points [OF assms(1),
        of "\<lambda>x y. buffer svc (point svc x y) (series_median env (map spatial_uncertainty samples))"]
    by (simp add: main_from_samples_def geometry_define_feature)
qed

text \<open>One entry that is no date, and no sample area is built.\<close>

lemma main_from_samples_no_date:
  assumes "s \<in> set samples" and "to_datetime env (sample_date s) = None"
  shows "main_from_samples env svc samples = Inl ValueError"
proof -
  have "those (map (sample_to_datetime env) samples) = None"
    using assms
    by (induction samples) (auto simp: sample_to_datetime_def split: option.splits)
  then show ?thesis by (simp add: main_from_samples_def)
qed

subsection \<open>main\<close>



end
